theory Spec2Isabelle
  imports Main "HOL-Library.Sublist"
begin

section \<open>Data model\<close>

text \<open>
  The analyser works on a pandas DataFrame read from Logger++ CSV exports. A cell of a
  text column holds a Python string or a missing value (NaN, None or pd.NA, which pandas
  treats alike). Text is ASCII here: one \<^typ>\<open>char\<close> per character, as in URLs,
  tool names and HTTP headers.

  \<open>analyze_burp_log\<close> reads four columns only, so a row carries these four cells; which
  of them exist as columns is recorded in \<open>columns\<close>, and the cell of an absent column
  is never read (reading the column raises \<open>KeyError\<close>).

  A column in which \<open>read_csv\<close> finds no value at all is not a text column: its dtype
  is float64 and each of its cells is missing. \<open>float64\<close> lists these columns. The dtype
  of a column stays what it is when rows are filtered out.
\<close>

datatype cell = Str string | NA

record row =
  Request_URL :: cell
  Request_Tool :: cell
  Request_Time :: cell
  Response_Headers :: cell

record dataframe =
  columns :: "string list"
  float64 :: "string list"
  rows :: "row list"

text \<open>Exceptions that escape \<open>analyze_burp_log\<close>.\<close>

datatype exn = KeyError string | AttributeError | ValueError | OverflowError

text \<open>Applying a function that may raise along a list: the first exception ends it.\<close>

fun traverse :: "('a \<Rightarrow> exn + 'b) \<Rightarrow> 'a list \<Rightarrow> exn + 'b list" where
  "traverse f [] = Inr []"
| "traverse f (x # xs) =
     (case f x of
        Inl e \<Rightarrow> Inl e
      | Inr y \<Rightarrow> (case traverse f xs of Inl e \<Rightarrow> Inl e | Inr ys \<Rightarrow> Inr (y # ys)))"

text \<open>\<open>df.empty\<close>: true when either axis has length zero.\<close>

definition empty :: "dataframe \<Rightarrow> bool" where
  "empty df = (rows df = [] \<or> columns df = [])"

section \<open>Strings\<close>

text \<open>\<open>str.lower()\<close> on ASCII text.\<close>

definition lower_char :: "char \<Rightarrow> char" where
  "lower_char c =
     (let n = (of_char c :: nat) in if 65 \<le> n \<and> n \<le> 90 then char_of (n + 32) else c)"

definition lower :: "string \<Rightarrow> string" where
  "lower s = map lower_char s"

text \<open>
  The vectorised string methods of a column: \<open>.str.lower()\<close> leaves a missing value
  missing, \<open>.str.endswith(pats, na=False)\<close> tests a tuple of suffixes and reports
  False on a missing value, \<open>.isin(values)\<close> is membership by equality.
\<close>

fun str_lower :: "cell \<Rightarrow> cell" where
  "str_lower (Str s) = Str (lower s)"
| "str_lower NA = NA"

fun str_endswith :: "string list \<Rightarrow> cell \<Rightarrow> bool" where
  "str_endswith pats (Str s) = list_ex (\<lambda>p. suffix p s) pats"
| "str_endswith pats NA = False"

fun isin :: "string list \<Rightarrow> cell \<Rightarrow> bool" where
  "isin values (Str s) = (s \<in> set values)"
| "isin values NA = False"

section \<open>Filter stage (\<open>analyze_burp_log\<close>, "Apply Filters")\<close>

definition extensions_tuple :: "string list \<Rightarrow> string list" where
  "extensions_tuple exclude_extensions = map (\<lambda>ext. ''.'' @ lower ext) exclude_extensions"

text \<open>The boolean masks that the two filters negate, row by row.\<close>

definition extension_mask :: "string list \<Rightarrow> row \<Rightarrow> bool" where
  "extension_mask exclude_extensions r =
     str_endswith (extensions_tuple exclude_extensions) (str_lower (Request_URL r))"

definition tool_mask :: "string list \<Rightarrow> row \<Rightarrow> bool" where
  "tool_mask exclude_tools r = isin exclude_tools (Request_Tool r)"

text \<open>
  \<open>if exclude_extensions:\<close> skips the filter for \<open>None\<close> and for the empty list
  alike; both are the empty list here. \<open>df['Request.URL']\<close> raises \<open>KeyError\<close>
  when the column does not exist, and the \<open>.str\<close> accessor raises
  \<open>AttributeError\<close> on a column that is not a text column. \<open>isin\<close> works on a
  column of either dtype.
\<close>

definition filter_extensions :: "string list \<Rightarrow> dataframe \<Rightarrow> exn + dataframe" where
  "filter_extensions exclude_extensions df =
     (if exclude_extensions = [] then Inr df
      else if ''Request.URL'' \<notin> set (columns df) then Inl (KeyError ''Request.URL'')
      else if ''Request.URL'' \<in> set (float64 df) then Inl AttributeError
      else Inr (df\<lparr>rows := filter (\<lambda>r. \<not> extension_mask exclude_extensions r) (rows df)\<rparr>))"

definition filter_tools :: "string list \<Rightarrow> dataframe \<Rightarrow> exn + dataframe" where
  "filter_tools exclude_tools df =
     (if exclude_tools = [] then Inr df
      else if ''Request.Tool'' \<in> set (columns df)
      then Inr (df\<lparr>rows := filter (\<lambda>r. \<not> tool_mask exclude_tools r) (rows df)\<rparr>)
      else Inl (KeyError ''Request.Tool''))"

definition apply_filters :: "string list \<Rightarrow> string list \<Rightarrow> dataframe \<Rightarrow> exn + dataframe" where
  "apply_filters exclude_extensions exclude_tools df =
     (case filter_extensions exclude_extensions df of
        Inl e \<Rightarrow> Inl e
      | Inr df1 \<Rightarrow> filter_tools exclude_tools df1)"

section \<open>Timestamp resolution\<close>

text \<open>
  A datetime is its wall-clock reading, counted in seconds, and the UTC offset it
  carries, if any (\<open>tzinfo\<close>). These library functions are parameters of the model:
  \<^item> \<open>strptime\<close>: \<open>pd.to_datetime\<close> on one string with the format
    \<open>%m/%d/%Y %I:%M:%S %p\<close> and \<open>errors='coerce'\<close>; \<open>None\<close> is \<open>NaT\<close>;
  \<^item> \<open>parsedate_to_datetime\<close> of \<open>email.utils\<close>; \<open>Inr None\<close> stands for the
    \<open>TypeError\<close> or \<open>ValueError\<close> that \<open>extract_date_from_headers\<close> catches, and
    \<open>Inl e\<close> for an exception that it does not catch (the parser raises
    \<open>OverflowError\<close> on an oversized number);
  \<^item> \<open>in_bounds\<close>: whether the datetime dtype of pandas can hold the datetime;
  \<^item> \<open>urlparse_hostname\<close>: \<open>urlparse(x).hostname\<close>, which is \<open>None\<close> for a URL
    without a network location and raises \<open>ValueError\<close> on some malformed ones;
  \<^item> \<open>strftime_dmy\<close>: a calendar day printed with \<open>strftime('%d/%m/%Y')\<close>.
\<close>

record datetime =
  wall :: int
  tzinfo :: "int option"

record pylib =
  strptime :: "string \<Rightarrow> int option"
  parsedate_to_datetime :: "string \<Rightarrow> exn + datetime option"
  in_bounds :: "datetime \<Rightarrow> bool"
  urlparse_hostname :: "string \<Rightarrow> exn + string option"
  strftime_dmy :: "int \<Rightarrow> string"

text \<open>Whitespace as \<open>\s\<close> and \<open>str.strip()\<close> see it, among ASCII characters.\<close>

definition is_space :: "char \<Rightarrow> bool" where
  "is_space c = ((of_char c :: nat) \<in> {9, 10, 11, 12, 13, 28, 29, 30, 31, 32})"

definition strip :: "string \<Rightarrow> string" where
  "strip s = rev (dropWhile is_space (rev (dropWhile is_space s)))"

text \<open>
  \<open>re.search(r'^Date:\s*(.*)', headers_str, re.IGNORECASE | re.MULTILINE)\<close>: the
  first position at the start of the text or after a newline where \<open>Date:\<close> stands, in
  any letter case. There \<open>\s*\<close> takes all the whitespace that follows (newlines too) and
  group 1 is the rest of that line. The result is group 1.
\<close>

definition starts_with_Date :: "string \<Rightarrow> bool" where
  "starts_with_Date s = (lower (take 5 s) = ''date:'')"

definition group1 :: "string \<Rightarrow> string" where
  "group1 s = takeWhile (\<lambda>c. c \<noteq> CHR 0x0A) (dropWhile is_space (drop 5 s))"

fun re_search_Date :: "bool \<Rightarrow> string \<Rightarrow> string option" where
  "re_search_Date line_start [] = None"
| "re_search_Date line_start (c # cs) =
     (if line_start \<and> starts_with_Date (c # cs) then Some (group1 (c # cs))
      else re_search_Date (c = CHR 0x0A) cs)"

definition extract_date_from_headers :: "pylib \<Rightarrow> cell \<Rightarrow> exn + datetime option" where
  "extract_date_from_headers L headers_str =
     (case headers_str of
        NA \<Rightarrow> Inr None
      | Str h \<Rightarrow>
          (case re_search_Date True h of
             None \<Rightarrow> Inr None
           | Some g \<Rightarrow> parsedate_to_datetime L (strip g)))"

text \<open>The primary strategy: the \<open>Time\<close> column from \<open>Request.Time\<close>.\<close>

definition to_datetime :: "pylib \<Rightarrow> cell \<Rightarrow> int option" where
  "to_datetime L c = (case c of NA \<Rightarrow> None | Str s \<Rightarrow> strptime L s)"

definition request_times :: "pylib \<Rightarrow> dataframe \<Rightarrow> int option list" where
  "request_times L df =
     (if ''Request.Time'' \<in> set (columns df)
      then map (\<lambda>r. to_datetime L (Request_Time r)) (rows df)
      else map (\<lambda>r. None) (rows df))"

text \<open>The fallback strategy: the \<open>Time\<close> column from \<open>Response.Headers\<close>.\<close>

definition header_times :: "pylib \<Rightarrow> dataframe \<Rightarrow> exn + datetime option list" where
  "header_times L df =
     traverse (\<lambda>r. extract_date_from_headers L (Response_Headers r)) (rows df)"

text \<open>
  \<open>df['Time'].dt.tz_localize(None)\<close> drops the offset and keeps the wall clock. The
  \<open>.dt\<close> accessor exists on a datetime column only: pandas gives the result of
  \<open>apply\<close> a datetime dtype when the datetimes in it share one \<open>tzinfo\<close> (missing values
  aside) and the dtype can hold each of them, and leaves it a column of objects
  otherwise, on which \<open>.dt\<close> raises \<open>AttributeError\<close>.
\<close>

fun notna_values :: "'a option list \<Rightarrow> 'a list" where
  "notna_values [] = []"
| "notna_values (None # xs) = notna_values xs"
| "notna_values (Some x # xs) = x # notna_values xs"

definition datetimelike :: "pylib \<Rightarrow> datetime option list \<Rightarrow> bool" where
  "datetimelike L ts =
     (list_all (in_bounds L) (notna_values ts) \<and>
      length (remdups (map tzinfo (notna_values ts))) \<le> 1)"

definition tz_localize_None :: "pylib \<Rightarrow> datetime option list \<Rightarrow> exn + int option list" where
  "tz_localize_None L ts =
     (if datetimelike L ts then Inr (map (map_option wall) ts) else Inl AttributeError)"

text \<open>
  What \<open>analyze_burp_log\<close> hands back: an exception that escapes it, \<open>(None, None)\<close>
  after printing one of its messages, or its pair of results.
\<close>

datatype diagnostic =
  EmptyData | AllFilteredOut | MissingColumn string | NoHeadersColumn | NoValidTimestamps

datatype 'a outcome = Raise exn | Diagnostic diagnostic | Result 'a

definition resolve_times :: "pylib \<Rightarrow> dataframe \<Rightarrow> (int option list) outcome" where
  "resolve_times L df =
     (let t = request_times L df in
      if list_all (\<lambda>x. x = None) t
      then (if ''Response.Headers'' \<in> set (columns df)
            then (case header_times L df of
                    Inl e \<Rightarrow> Raise e
                  | Inr h \<Rightarrow>
                      if list_ex (\<lambda>x. x \<noteq> None) h
                      then (case tz_localize_None L h of
                              Inl e \<Rightarrow> Raise e
                            | Inr ts \<Rightarrow> Result ts)
                      else Result (map (map_option wall) h))
            else Diagnostic NoHeadersColumn)
      else Result t)"

text \<open>\<open>df.dropna(subset=['Time'])\<close>: the records that have an Event Time.\<close>

record event =
  source :: row
  Time :: int

fun dropna_Time :: "row list \<Rightarrow> int option list \<Rightarrow> event list" where
  "dropna_Time (r # rs) (Some t # ts) = \<lparr>source = r, Time = t\<rparr> # dropna_Time rs ts"
| "dropna_Time (r # rs) (None # ts) = dropna_Time rs ts"
| "dropna_Time rs ts = []"

section \<open>Aggregation\<close>

text \<open>
  A Python dict is an association list in insertion order, one entry for each key.
  \<open>Series.value_counts()\<close> leaves missing values out (\<open>dropna=True\<close> is its default),
  counts each remaining value and orders the result by falling count; the order among
  equal counts is pandas' own, and nothing below depends on it.
\<close>

definition notna :: "cell \<Rightarrow> bool" where
  "notna c = (c \<noteq> NA)"

definition unique :: "'a list \<Rightarrow> 'a list" where
  "unique xs = rev (remdups (rev xs))"

definition counts :: "'a list \<Rightarrow> ('a \<times> nat) list" where
  "counts xs = sort_key (\<lambda>kc. - int (snd kc)) (map (\<lambda>k. (k, count_list xs k)) (unique xs))"

definition value_counts :: "cell list \<Rightarrow> (cell \<times> nat) list" where
  "value_counts xs = counts (filter notna xs)"

text \<open>
  \<open>d[k] = f(d[k])\<close> on a \<open>defaultdict\<close> whose factory yields \<open>dflt\<close>: a key that is
  not there yet enters at the end with the default.
\<close>

fun dd_update :: "'k \<Rightarrow> 'v \<Rightarrow> ('v \<Rightarrow> 'v) \<Rightarrow> ('k \<times> 'v) list \<Rightarrow> ('k \<times> 'v) list" where
  "dd_update k dflt f [] = [(k, f dflt)]"
| "dd_update k dflt f ((k', v) # kvs) =
     (if k = k' then (k', f v) # kvs else (k', v) # dd_update k dflt f kvs)"

definition increment :: "'k \<Rightarrow> ('k \<times> nat) list \<Rightarrow> ('k \<times> nat) list" where
  "increment k d = dd_update k 0 (\<lambda>n. n + 1) d"

text \<open>
  \<open>df['Target']\<close>: the hostname of a URL that is a string, \<open>None\<close> otherwise. The
  column stops at the first URL on which \<open>urlparse\<close> raises.
\<close>

definition target :: "pylib \<Rightarrow> cell \<Rightarrow> exn + cell" where
  "target L x =
     (case x of
        NA \<Rightarrow> Inr NA
      | Str u \<Rightarrow>
          (case urlparse_hostname L u of
             Inl e \<Rightarrow> Inl e
           | Inr None \<Rightarrow> Inr NA
           | Inr (Some h) \<Rightarrow> Inr (Str h)))"

definition target_column :: "pylib \<Rightarrow> cell list \<Rightarrow> exn + cell list" where
  "target_column L xs = traverse (target L) xs"

definition endpoint_counts :: "event list \<Rightarrow> (cell \<times> nat) list" where
  "endpoint_counts evs = value_counts (map (\<lambda>e. Request_URL (source e)) evs)"

definition target_counts :: "pylib \<Rightarrow> event list \<Rightarrow> exn + (cell \<times> nat) list" where
  "target_counts L evs =
     (case target_column L (map (\<lambda>e. Request_URL (source e)) evs) of
        Inl e \<Rightarrow> Inl e
      | Inr ts \<Rightarrow> Inr (value_counts ts))"

definition tool_summary :: "event list \<Rightarrow> (cell \<times> nat) list" where
  "tool_summary evs = value_counts (map (\<lambda>e. Request_Tool (source e)) evs)"

text \<open>
  The dicts that the two loops over \<open>df.iterrows()\<close> fill. The missing value of a text
  column is one object (the \<open>nan\<close> that \<open>read_csv\<close> stores, or \<open>pd.NA\<close>) and so one
  key. Of a float64 column \<open>iterrows\<close> hands out a new \<open>nan\<close> object in every row, and
  a dict keeps these apart, since \<open>nan\<close> equals nothing: with such a URL column
  (\<open>nan_urls\<close>) every record enters \<open>tool_endpoint_counts\<close> under a key of its own. (A
  record without tool never reaches a report, since \<open>html.escape\<close> raises on its tool;
  its key is the one missing value here.)
\<close>

definition tool_endpoint_counts ::
  "bool \<Rightarrow> event list \<Rightarrow> (cell \<times> (cell \<times> nat) list) list" where
  "tool_endpoint_counts nan_urls evs =
     foldl (\<lambda>d e. if nan_urls \<and> Request_URL (source e) = NA
                   then d @ [(NA, increment (Request_Tool (source e)) [])]
                   else dd_update (Request_URL (source e)) []
                          (increment (Request_Tool (source e))) d)
       [] evs"

text \<open>
  \<open>df['Date'] = df['Time'].dt.date\<close>: the calendar day of the wall clock. The daily
  summary is keyed by the day, which \<open>strftime('%Y-%m-%d')\<close> renders one-to-one.
\<close>

definition date :: "event \<Rightarrow> int" where
  "date e = Time e div 86400"

record bucket =
  total :: nat
  tools :: "(cell \<times> nat) list"

definition count_in_bucket :: "cell \<Rightarrow> bucket \<Rightarrow> bucket" where
  "count_in_bucket tool b = b\<lparr>total := total b + 1, tools := increment tool (tools b)\<rparr>"

definition daily_summary :: "event list \<Rightarrow> (int \<times> bucket) list" where
  "daily_summary evs =
     foldl (\<lambda>d e. dd_update (date e) \<lparr>total = 0, tools = []\<rparr>
                     (count_in_bucket (Request_Tool (source e))) d)
       [] evs"

text \<open>
  The productivity metrics that are counts. (The average is a formatted float and the
  peak day is a formatted date; neither is modelled.)
\<close>

definition total_requests :: "event list \<Rightarrow> nat" where
  "total_requests evs = length evs"

definition active_days :: "event list \<Rightarrow> nat" where
  "active_days evs = length (remdups (map date evs))"

definition peak_day_count :: "event list \<Rightarrow> nat" where
  "peak_day_count evs = fold max (map snd (counts (map date evs))) 0"

record analysis_data =
  d_endpoint_counts :: "(cell \<times> nat) list"
  d_tool_endpoint_counts :: "(cell \<times> (cell \<times> nat) list) list"
  d_daily_summary :: "(int \<times> bucket) list"
  d_tool_summary :: "(cell \<times> nat) list"
  d_target_counts :: "(cell \<times> nat) list"
  d_total_requests :: nat
  d_active_days :: nat
  d_peak_day_count :: nat

section \<open>The HTML report\<close>

text \<open>
  Of the document, the fragments that carry text of the records are modelled: the rows of
  the three tables and the \<open>toolData\<close> line of the script. The rest of the template is
  fixed text, numbers and formatted dates.
\<close>

function str_nat :: "nat \<Rightarrow> string" where
  "str_nat n =
     (if n < 10 then [char_of (48 + n)]
      else str_nat (n div 10) @ [char_of (48 + n mod 10)])"
  by pat_completeness auto
termination
  by (relation "measure id") auto

fun join :: "string \<Rightarrow> string list \<Rightarrow> string" where
  "join sep [] = []"
| "join sep [x] = x"
| "join sep (x # y # ys) = x @ sep @ join sep (y # ys)"

text \<open>\<open>html.escape(s)\<close>, with \<open>quote=True\<close>.\<close>

definition html_escape_char :: "char \<Rightarrow> string" where
  "html_escape_char c =
     (if c = CHR ''&'' then ''&amp;''
      else if c = CHR ''<'' then ''&lt;''
      else if c = CHR ''>'' then ''&gt;''
      else if c = CHR 0x22 then ''&quot;''
      else if c = CHR 0x27 then ''&#x27;''
      else [c])"

definition html_escape :: "string \<Rightarrow> string" where
  "html_escape s = concat (map html_escape_char s)"

text \<open>
  \<open>html.escape\<close> calls \<open>s.replace\<close>: on a missing value it raises
  \<open>AttributeError\<close>. \<open>str(x)\<close> accepts anything.
\<close>

definition escape :: "cell \<Rightarrow> exn + string" where
  "escape c = (case c of NA \<Rightarrow> Inl AttributeError | Str s \<Rightarrow> Inr (html_escape s))"

definition str :: "cell \<Rightarrow> string" where
  "str c = (case c of NA \<Rightarrow> ''nan'' | Str s \<Rightarrow> s)"

text \<open>
  \<open>json.dumps\<close> of a string: quotes around it, a backslash before a quote or a
  backslash, the short escapes for the usual control characters and \<open>\u00XX\<close> for any
  other character outside the printable ASCII range. Every other character, and so each
  of \<open><\<close>, \<open>>\<close>, \<open>/\<close> and \<open>&\<close>, is copied as it is.
\<close>

definition hex_digit :: "nat \<Rightarrow> char" where
  "hex_digit n = (if n < 10 then char_of (48 + n) else char_of (87 + n))"

definition json_char :: "char \<Rightarrow> string" where
  "json_char c =
     (let n = (of_char c :: nat) in
      if n = 0x22 then [CHR 0x5C, CHR 0x22]
      else if n = 0x5C then [CHR 0x5C, CHR 0x5C]
      else if n = 0x0A then [CHR 0x5C, CHR ''n'']
      else if n = 0x0D then [CHR 0x5C, CHR ''r'']
      else if n = 0x09 then [CHR 0x5C, CHR ''t'']
      else if n = 0x08 then [CHR 0x5C, CHR ''b'']
      else if n = 0x0C then [CHR 0x5C, CHR ''f'']
      else if n < 0x20 \<or> 0x7E < n
      then [CHR 0x5C, CHR ''u'', CHR ''0'', CHR ''0'', hex_digit (n div 16), hex_digit (n mod 16)]
      else [c])"

definition json_string :: "string \<Rightarrow> string" where
  "json_string s = [CHR 0x22] @ concat (map json_char s) @ [CHR 0x22]"

definition json_cell :: "cell \<Rightarrow> string" where
  "json_cell c = (case c of NA \<Rightarrow> ''NaN'' | Str s \<Rightarrow> json_string s)"

definition json_items :: "(cell \<times> nat) list \<Rightarrow> string" where
  "json_items items =
     ''['' @ join '', '' (map (\<lambda>kc. ''['' @ json_cell (fst kc) @ '', '' @ str_nat (snd kc) @ '']'') items)
       @ '']''"

text \<open>\<open>sorted(d.items(), key=lambda item: item[1], reverse=True)\<close>, a stable sort.\<close>

definition sorted_by_count :: "('a \<times> nat) list \<Rightarrow> ('a \<times> nat) list" where
  "sorted_by_count items = sort_key (\<lambda>kc. - int (snd kc)) items"

definition escaped_endpoints_html :: "(cell \<times> nat) list \<Rightarrow> string" where
  "escaped_endpoints_html items =
     concat (map (\<lambda>kc. ''<tr><td>'' @ html_escape (str (fst kc)) @ ''</td><td>''
                          @ str_nat (snd kc) @ ''</td></tr>'')
               (sorted_by_count items))"

definition tool_breakdown :: "(cell \<times> nat) list \<Rightarrow> exn + string" where
  "tool_breakdown items =
     (case traverse (\<lambda>tc. case escape (fst tc) of
                              Inl e \<Rightarrow> Inl e
                            | Inr t \<Rightarrow> Inr (t @ '': '' @ str_nat (snd tc))) items of
        Inl e \<Rightarrow> Inl e
      | Inr parts \<Rightarrow> Inr (join ''<br>'' parts))"

definition escaped_daily_summary_html :: "pylib \<Rightarrow> (int \<times> bucket) list \<Rightarrow> exn + string" where
  "escaped_daily_summary_html L days =
     (case traverse (\<lambda>dv. case tool_breakdown (tools (snd dv)) of
                              Inl e \<Rightarrow> Inl e
                            | Inr cell3 \<Rightarrow>
                                Inr (''<tr><td>'' @ strftime_dmy L (fst dv) @ ''</td><td>''
                                      @ str_nat (total (snd dv)) @ ''</td><td>'' @ cell3
                                      @ ''</td></tr>''))
             (sort_key fst days) of
        Inl e \<Rightarrow> Inl e
      | Inr trs \<Rightarrow> Inr (concat trs))"

definition tool_table_rows :: "(cell \<times> nat) list \<Rightarrow> exn + string" where
  "tool_table_rows items =
     (case traverse (\<lambda>tc. case escape (fst tc) of
                              Inl e \<Rightarrow> Inl e
                            | Inr t \<Rightarrow> Inr (''<tr><td>'' @ t @ ''</td><td>''
                                              @ str_nat (snd tc) @ ''</td></tr>''))
             (sorted_by_count items) of
        Inl e \<Rightarrow> Inl e
      | Inr trs \<Rightarrow> Inr (concat trs))"

definition tool_data_script :: "(cell \<times> nat) list \<Rightarrow> string" where
  "tool_data_script items = ''const toolData = '' @ json_items items @ '';''"

record html =
  endpoints_table :: string
  daily_table :: string
  tools_table :: string
  script :: string

text \<open>
  The f-strings are evaluated in the order of the source: the two \<open>escaped_...\<close>
  variables first, then the template with the tool table and the script.
\<close>

definition html_content :: "pylib \<Rightarrow> analysis_data \<Rightarrow> exn + html" where
  "html_content L a =
     (case escaped_daily_summary_html L (d_daily_summary a) of
        Inl e \<Rightarrow> Inl e
      | Inr daily \<Rightarrow>
          (case tool_table_rows (d_tool_summary a) of
             Inl e \<Rightarrow> Inl e
           | Inr trs \<Rightarrow>
               Inr \<lparr>endpoints_table = escaped_endpoints_html (d_endpoint_counts a),
                    daily_table = daily,
                    tools_table = trs,
                    script = tool_data_script (d_tool_summary a)\<rparr>))"

section \<open>\<open>analyze_burp_log\<close>\<close>

definition analysis ::
  "pylib \<Rightarrow> bool \<Rightarrow> event list \<Rightarrow> (html \<times> analysis_data) outcome" where
  "analysis L nan_urls evs =
     (case target_counts L evs of
        Inl e \<Rightarrow> Raise e
      | Inr tc \<Rightarrow>
          (let a = \<lparr>d_endpoint_counts = endpoint_counts evs,
                    d_tool_endpoint_counts = tool_endpoint_counts nan_urls evs,
                    d_daily_summary = daily_summary evs,
                    d_tool_summary = tool_summary evs,
                    d_target_counts = tc,
                    d_total_requests = total_requests evs,
                    d_active_days = active_days evs,
                    d_peak_day_count = peak_day_count evs\<rparr>
           in case html_content L a of
                Inl e \<Rightarrow> Raise e
              | Inr h \<Rightarrow> Result (h, a)))"

definition analyze_burp_log ::
  "pylib \<Rightarrow> dataframe \<Rightarrow> string list \<Rightarrow> string list \<Rightarrow> (html \<times> analysis_data) outcome" where
  "analyze_burp_log L df exclude_extensions exclude_tools =
     (if empty df then Diagnostic EmptyData
      else
        (case apply_filters exclude_extensions exclude_tools df of
           Inl e \<Rightarrow> Raise e
         | Inr df1 \<Rightarrow>
             if empty df1 then Diagnostic AllFilteredOut
             else if ''Request.URL'' \<notin> set (columns df1)
             then Diagnostic (MissingColumn ''Request.URL'')
             else if ''Request.Tool'' \<notin> set (columns df1)
             then Diagnostic (MissingColumn ''Request.Tool'')
             else
               (case resolve_times L df1 of
                  Raise e \<Rightarrow> Raise e
                | Diagnostic d \<Rightarrow> Diagnostic d
                | Result ts \<Rightarrow>
                    (let evs = dropna_Time (rows df1) ts in
                     if evs = [] then Diagnostic NoValidTimestamps
                     else analysis L (''Request.URL'' \<in> set (float64 df1)) evs))))"

section \<open>Sample inputs\<close>

text \<open>Records, record sets and events for the concrete instances below.\<close>

definition request :: "string \<Rightarrow> string \<Rightarrow> row" where
  "request url tool =
     \<lparr>Request_URL = Str url, Request_Tool = Str tool, Request_Time = NA, Response_Headers = NA\<rparr>"

definition export :: "row list \<Rightarrow> dataframe" where
  "export rs = \<lparr>columns = [''Request.Time'', ''Request.Tool'', ''Request.URL'', ''Response.Headers''],
              float64 = [], rows = rs\<rparr>"

text \<open>An export in which no record has a URL: its URL column is float64.\<close>

definition export_without_urls :: "row list \<Rightarrow> dataframe" where
  "export_without_urls rs = (export rs)\<lparr>float64 := [''Request.URL'']\<rparr>"

text \<open>
  A stand-in for the library on the sample strings: the second of January 2024, ten
  o'clock, as a request time, as an HTTP date in GMT and as a mail date one hour east;
  and a date whose year the parser cannot take. The bounds are those of a datetime dtype
  that counts nanoseconds in 64 bits.
\<close>

definition sample_lib :: pylib where
  "sample_lib =
     \<lparr>strptime = (\<lambda>s. if s = ''01/02/2024 10:00:00 AM'' then Some 1704189600 else None),
      parsedate_to_datetime =
        (\<lambda>s. if s = ''Tue, 02 Jan 2024 10:00:00 GMT''
             then Inr (Some \<lparr>wall = 1704189600, tzinfo = Some 0\<rparr>)
             else if s = ''Tue, 02 Jan 2024 11:00:00 +0100''
             then Inr (Some \<lparr>wall = 1704193200, tzinfo = Some 3600\<rparr>)
             else if s = ''Mon, 01 Jan 99999999999 00:00:00 GMT''
             then Inl OverflowError
             else Inr None),
      in_bounds =
        (\<lambda>d. - 9223372036 \<le> wall d - (case tzinfo d of None \<Rightarrow> 0 | Some off \<Rightarrow> off) \<and>
             wall d - (case tzinfo d of None \<Rightarrow> 0 | Some off \<Rightarrow> off) \<le> 9223372036),
      urlparse_hostname = (\<lambda>u. if prefix ''http://x/'' u then Inr (Some ''x'') else Inr None),
      strftime_dmy = (\<lambda>d. if d = 19724 then ''02/01/2024'' else [])\<rparr>"

definition response :: "string \<Rightarrow> string \<Rightarrow> string \<Rightarrow> row" where
  "response url tool date_line =
     \<lparr>Request_URL = Str url, Request_Tool = Str tool, Request_Time = Str ''n/a'',
      Response_Headers =
        Str (''HTTP/1.1 200 OK'' @ [CHR 0x0D, CHR 0x0A] @ date_line @ [CHR 0x0D, CHR 0x0A]
             @ ''Content-Type: text/html'' @ [CHR 0x0D, CHR 0x0A])\<rparr>"

definition timed :: "int \<Rightarrow> row \<Rightarrow> event" where
  "timed t r = \<lparr>source = r, Time = t\<rparr>"

definition no_url :: "string \<Rightarrow> string \<Rightarrow> row" where
  "no_url tool time =
     \<lparr>Request_URL = NA, Request_Tool = Str tool, Request_Time = Str time, Response_Headers = NA\<rparr>"

definition request_at :: "string \<Rightarrow> string \<Rightarrow> string \<Rightarrow> row" where
  "request_at url tool time =
     \<lparr>Request_URL = Str url, Request_Tool = Str tool, Request_Time = Str time,
      Response_Headers = NA\<rparr>"

section \<open>Properties of the filter stage\<close>

lemma extension_mask_Nil: "extension_mask [] r = False"
  by (cases "Request_URL r") (simp_all add: extension_mask_def extensions_tuple_def)

lemma tool_mask_Nil: "tool_mask [] r = False"
  by (cases "Request_Tool r") (simp_all add: tool_mask_def)

lemma extension_mask_iff:
  "extension_mask exts r \<longleftrightarrow>
     (\<exists>e \<in> set exts. \<exists>u. Request_URL r = Str u \<and> suffix (''.'' @ lower e) (lower u))"
  by (cases "Request_URL r")
     (auto simp: extension_mask_def extensions_tuple_def list_ex_iff)

lemma tool_mask_iff:
  "tool_mask excl r \<longleftrightarrow> (\<exists>t \<in> set excl. Request_Tool r = Str t)"
  by (cases "Request_Tool r") (auto simp: tool_mask_def)

lemma filter_extensions_rows:
  assumes "exts = [] \<or>
           (''Request.URL'' \<in> set (columns df) \<and> ''Request.URL'' \<notin> set (float64 df))"
  shows "filter_extensions exts df =
           Inr (df\<lparr>rows := filter (\<lambda>r. \<not> extension_mask exts r) (rows df)\<rparr>)"
  using assms by (auto simp: filter_extensions_def extension_mask_Nil)

lemma filter_extensions_Inr_cases:
  assumes "filter_extensions exts df = Inr df'"
  shows "exts = [] \<or>
         (''Request.URL'' \<in> set (columns df) \<and> ''Request.URL'' \<notin> set (float64 df))"
  using assms by (auto simp: filter_extensions_def split: if_splits)

lemma filter_tools_rows:
  assumes "excl = [] \<or> ''Request.Tool'' \<in> set (columns df)"
  shows "filter_tools excl df =
           Inr (df\<lparr>rows := filter (\<lambda>r. \<not> tool_mask excl r) (rows df)\<rparr>)"
  using assms by (auto simp: filter_tools_def tool_mask_Nil)

lemma apply_filters_rows:
  assumes "exts = [] \<or>
           (''Request.URL'' \<in> set (columns df) \<and> ''Request.URL'' \<notin> set (float64 df))"
    and "excl = [] \<or> ''Request.Tool'' \<in> set (columns df)"
  shows "apply_filters exts excl df =
           Inr (df\<lparr>rows := filter (\<lambda>r. \<not> (extension_mask exts r \<or> tool_mask excl r)) (rows df)\<rparr>)"
proof -
  let ?df1 = "df\<lparr>rows := filter (\<lambda>r. \<not> extension_mask exts r) (rows df)\<rparr>"
  have 1: "filter_extensions exts df = Inr ?df1"
    using assms(1) by (rule filter_extensions_rows)
  have "excl = [] \<or> ''Request.Tool'' \<in> set (columns ?df1)"
    using assms(2) by simp
  then have 2: "filter_tools excl ?df1 =
      Inr (?df1\<lparr>rows := filter (\<lambda>r. \<not> tool_mask excl r) (rows ?df1)\<rparr>)"
    by (rule filter_tools_rows)
  have 3: "filter (\<lambda>r. \<not> tool_mask excl r) (filter (\<lambda>r. \<not> extension_mask exts r) (rows df))
      = filter (\<lambda>r. \<not> (extension_mask exts r \<or> tool_mask excl r)) (rows df)"
    by (simp add: conj_commute)
  have "apply_filters exts excl df = filter_tools excl ?df1"
    by (simp add: apply_filters_def 1)
  also have "\<dots> = Inr (?df1\<lparr>rows := filter (\<lambda>r. \<not> tool_mask excl r) (rows ?df1)\<rparr>)"
    by (rule 2)
  also have "\<dots> = Inr (df\<lparr>rows := filter (\<lambda>r. \<not> (extension_mask exts r \<or> tool_mask excl r)) (rows df)\<rparr>)"
    using 3 by simp
  finally show ?thesis .
qed

lemma apply_filters_Inr_cases:
  assumes "apply_filters exts excl df = Inr df'"
  shows "(exts = [] \<or>
          (''Request.URL'' \<in> set (columns df) \<and> ''Request.URL'' \<notin> set (float64 df))) \<and>
         (excl = [] \<or> ''Request.Tool'' \<in> set (columns df))"
  using assms
  by (auto simp: apply_filters_def filter_extensions_def filter_tools_def
           split: if_splits sum.splits)

lemma filter_mask_twice:
  "filter (\<lambda>r. \<not> (extension_mask exts r \<or> tool_mask excl r))
     (filter (\<lambda>r. \<not> (extension_mask exts r \<or> tool_mask excl r)) rs) =
   filter (\<lambda>r. \<not> (extension_mask exts r \<or> tool_mask excl r)) rs"
  by (induction rs) auto

lemma sample_masks:
  "extension_mask [''js''] (request ''http://x/a.JS?x=1'' ''Scanner'') = False"
  "extension_mask [''js''] (request ''http://x/a.JS'' ''Proxy'') = True"
  "extension_mask [''js''] (request ''http://x/b'' ''scanner'') = False"
  "tool_mask [''Scanner''] (request ''http://x/a.JS?x=1'' ''Scanner'') = True"
  "tool_mask [''Scanner''] (request ''http://x/a.JS'' ''Proxy'') = False"
  "tool_mask [''Scanner''] (request ''http://x/b'' ''scanner'') = False"
  by code_simp+

lemma sample_columns:
  "([''js''] = [] \<or>
    (''Request.URL'' \<in> set (columns (export rs)) \<and> ''Request.URL'' \<notin> set (float64 (export rs)))) \<and>
   ([''Scanner''] = [] \<or> ''Request.Tool'' \<in> set (columns (export rs)))"
  by (simp add: export_def)

subsection \<open>The extension filter\<close>

text \<open>
  C3. Whenever the extension filter returns a record set, that set consists of exactly
  the rows that its mask does not mark; it returns one when the URL column exists and is
  a text column, and raises otherwise under a non-empty exclusion list. The mask marks a
  row if and only if its URL is a string whose lower-cased form ends with \<open>.\<close> followed
  by the lower-cased form of some excluded extension. A query string after the extension
  defeats the match: a record with URL \<open>http://x/a.JS?x=1\<close> is not excluded by the list
  \<open>["js"]\<close>.
\<close>

theorem extension_filter_suffix_match:
  "(filter_extensions exts df = Inr df' \<longrightarrow>
      df' = df\<lparr>rows := filter (\<lambda>r. \<not> extension_mask exts r) (rows df)\<rparr>) \<and>
   (''Request.URL'' \<in> set (columns df) \<and> ''Request.URL'' \<notin> set (float64 df) \<longrightarrow>
      filter_extensions exts df =
        Inr (df\<lparr>rows := filter (\<lambda>r. \<not> extension_mask exts r) (rows df)\<rparr>)) \<and>
   (exts \<noteq> [] \<and> ''Request.URL'' \<notin> set (columns df) \<longrightarrow>
      filter_extensions exts df = Inl (KeyError ''Request.URL'')) \<and>
   (exts \<noteq> [] \<and> ''Request.URL'' \<in> set (columns df) \<and> ''Request.URL'' \<in> set (float64 df) \<longrightarrow>
      filter_extensions exts df = Inl AttributeError) \<and>
   (extension_mask exts r \<longleftrightarrow>
      (\<exists>e \<in> set exts. \<exists>u. Request_URL r = Str u \<and> suffix (''.'' @ lower e) (lower u))) \<and>
   (Request_URL r' = Str ''http://x/a.JS?x=1'' \<longrightarrow> \<not> extension_mask [''js''] r')"
proof (intro conjI impI)
  assume ok: "filter_extensions exts df = Inr df'"
  then have "exts = [] \<or>
      (''Request.URL'' \<in> set (columns df) \<and> ''Request.URL'' \<notin> set (float64 df))"
    by (rule filter_extensions_Inr_cases)
  then have "filter_extensions exts df =
      Inr (df\<lparr>rows := filter (\<lambda>r. \<not> extension_mask exts r) (rows df)\<rparr>)"
    by (rule filter_extensions_rows)
  with ok show "df' = df\<lparr>rows := filter (\<lambda>r. \<not> extension_mask exts r) (rows df)\<rparr>"
    by simp
next
  assume "''Request.URL'' \<in> set (columns df) \<and> ''Request.URL'' \<notin> set (float64 df)"
  then show "filter_extensions exts df =
      Inr (df\<lparr>rows := filter (\<lambda>r. \<not> extension_mask exts r) (rows df)\<rparr>)"
    by (simp add: filter_extensions_rows)
next
  assume "exts \<noteq> [] \<and> ''Request.URL'' \<notin> set (columns df)"
  then show "filter_extensions exts df = Inl (KeyError ''Request.URL'')"
    by (simp add: filter_extensions_def)
next
  assume "exts \<noteq> [] \<and> ''Request.URL'' \<in> set (columns df) \<and> ''Request.URL'' \<in> set (float64 df)"
  then show "filter_extensions exts df = Inl AttributeError"
    by (simp add: filter_extensions_def)
next
  show "extension_mask exts r \<longleftrightarrow>
      (\<exists>e \<in> set exts. \<exists>u. Request_URL r = Str u \<and> suffix (''.'' @ lower e) (lower u))"
    by (rule extension_mask_iff)
next
  assume u: "Request_URL r' = Str ''http://x/a.JS?x=1''"
  have "str_endswith (extensions_tuple [''js'']) (str_lower (Str ''http://x/a.JS?x=1'')) = False"
    by code_simp
  then show "\<not> extension_mask [''js''] r'"
    by (simp add: extension_mask_def u)
qed

theorem extension_filter_suffix_match_witness:
  "filter_extensions [''js'']
     (export [request ''http://x/a.JS?x=1'' ''Scanner'', request ''http://x/a.JS'' ''Proxy'']) =
   Inr (export [request ''http://x/a.JS?x=1'' ''Scanner'']) \<and>
   filter_extensions [''js''] (export_without_urls [no_url ''Proxy'' ''n/a'']) = Inl AttributeError \<and>
   filter_extensions [''js'']
     \<lparr>columns = [''Request.Tool''], float64 = [], rows = [request ''http://x/a.JS'' ''Proxy'']\<rparr>
     = Inl (KeyError ''Request.URL'')"
proof -
  let ?df = "export [request ''http://x/a.JS?x=1'' ''Scanner'', request ''http://x/a.JS'' ''Proxy'']"
  let ?nan = "export_without_urls [no_url ''Proxy'' ''n/a'']"
  let ?no = "\<lparr>columns = [''Request.Tool''], float64 = [],
              rows = [request ''http://x/a.JS'' ''Proxy'']\<rparr>"
  have c: "''Request.URL'' \<in> set (columns ?df) \<and> ''Request.URL'' \<notin> set (float64 ?df)"
    by (simp add: export_def)
  have u: "Request_URL (request ''http://x/a.JS?x=1'' ''Scanner'') = Str ''http://x/a.JS?x=1''"
    by (simp add: request_def)
  note t = extension_filter_suffix_match
    [of "[''js'']" ?df _ "request ''http://x/a.JS'' ''Proxy''"
        "request ''http://x/a.JS?x=1'' ''Scanner''"]
  have keep: "\<not> extension_mask [''js''] (request ''http://x/a.JS?x=1'' ''Scanner'')"
    using t u by blast
  have "filter_extensions [''js''] ?df =
      Inr (?df\<lparr>rows := filter (\<lambda>r. \<not> extension_mask [''js''] r) (rows ?df)\<rparr>)"
    using t c by blast
  then have 1: "filter_extensions [''js''] ?df =
      Inr (export [request ''http://x/a.JS?x=1'' ''Scanner''])"
    using keep by (simp add: export_def sample_masks)
  have "[''js''] \<noteq> [] \<and> ''Request.URL'' \<in> set (columns ?nan) \<and>
        ''Request.URL'' \<in> set (float64 ?nan)"
    by (simp add: export_without_urls_def export_def)
  then have 2: "filter_extensions [''js''] ?nan = Inl AttributeError"
    using extension_filter_suffix_match [of "[''js'']" ?nan] by blast
  have "[''js''] \<noteq> [] \<and> ''Request.URL'' \<notin> set (columns ?no)"
    by simp
  then have 3: "filter_extensions [''js''] ?no = Inl (KeyError ''Request.URL'')"
    using extension_filter_suffix_match [of "[''js'']" ?no] by blast
  from 1 2 3 show ?thesis by blast
qed

subsection \<open>The tool filter and the composition of the two\<close>

text \<open>
  C4. The tool mask marks a row if and only if its tool field is a string equal to some
  excluded tool, letter case included: the list \<open>["Scanner"]\<close> marks the tool
  \<open>Scanner\<close> and not the tool \<open>scanner\<close>. Whenever the filter stage returns a record
  set, that set consists of exactly the rows marked by neither mask, so a record is
  dropped if and only if it matches any excluded extension or any excluded tool; and the
  stage does return one when, for a non-empty extension list, the URL column exists and
  is a text column and, for a non-empty tool list, the tool column exists.
\<close>

theorem tool_filter_exact_and_composed:
  "(tool_mask excl r \<longleftrightarrow> (\<exists>t \<in> set excl. Request_Tool r = Str t)) \<and>
   (Request_Tool r1 = Str ''Scanner'' \<longrightarrow> tool_mask [''Scanner''] r1) \<and>
   (Request_Tool r2 = Str ''scanner'' \<longrightarrow> \<not> tool_mask [''Scanner''] r2) \<and>
   (apply_filters exts excl df = Inr df' \<longrightarrow>
      df' = df\<lparr>rows := filter (\<lambda>r. \<not> (extension_mask exts r \<or> tool_mask excl r)) (rows df)\<rparr>) \<and>
   ((exts = [] \<or>
     (''Request.URL'' \<in> set (columns df) \<and> ''Request.URL'' \<notin> set (float64 df))) \<and>
    (excl = [] \<or> ''Request.Tool'' \<in> set (columns df)) \<longrightarrow>
      apply_filters exts excl df =
        Inr (df\<lparr>rows := filter (\<lambda>r. \<not> (extension_mask exts r \<or> tool_mask excl r)) (rows df)\<rparr>))"
proof (intro conjI impI)
  show "tool_mask excl r \<longleftrightarrow> (\<exists>t \<in> set excl. Request_Tool r = Str t)"
    by (rule tool_mask_iff)
next
  assume "Request_Tool r1 = Str ''Scanner''"
  then show "tool_mask [''Scanner''] r1"
    by (simp add: tool_mask_def)
next
  assume "Request_Tool r2 = Str ''scanner''"
  then show "\<not> tool_mask [''Scanner''] r2"
    by (simp add: tool_mask_def)
next
  assume ok: "apply_filters exts excl df = Inr df'"
  then have "(exts = [] \<or>
       (''Request.URL'' \<in> set (columns df) \<and> ''Request.URL'' \<notin> set (float64 df))) \<and>
      (excl = [] \<or> ''Request.Tool'' \<in> set (columns df))"
    by (rule apply_filters_Inr_cases)
  then have "apply_filters exts excl df =
      Inr (df\<lparr>rows := filter (\<lambda>r. \<not> (extension_mask exts r \<or> tool_mask excl r)) (rows df)\<rparr>)"
    by (simp add: apply_filters_rows)
  with ok show
    "df' = df\<lparr>rows := filter (\<lambda>r. \<not> (extension_mask exts r \<or> tool_mask excl r)) (rows df)\<rparr>"
    by simp
next
  assume "(exts = [] \<or>
       (''Request.URL'' \<in> set (columns df) \<and> ''Request.URL'' \<notin> set (float64 df))) \<and>
      (excl = [] \<or> ''Request.Tool'' \<in> set (columns df))"
  then show "apply_filters exts excl df =
      Inr (df\<lparr>rows := filter (\<lambda>r. \<not> (extension_mask exts r \<or> tool_mask excl r)) (rows df)\<rparr>)"
    by (simp add: apply_filters_rows)
qed

theorem tool_filter_exact_and_composed_witness:
  "apply_filters [''js''] [''Scanner'']
     (export [request ''http://x/a.JS?x=1'' ''Scanner'', request ''http://x/a.JS'' ''Proxy'',
           request ''http://x/b'' ''scanner'']) =
   Inr (export [request ''http://x/b'' ''scanner'']) \<and>
   tool_mask [''Scanner''] (request ''http://x/a.JS?x=1'' ''Scanner'') \<and>
   \<not> tool_mask [''Scanner''] (request ''http://x/b'' ''scanner'')"
proof -
  let ?df = "export [request ''http://x/a.JS?x=1'' ''Scanner'', request ''http://x/a.JS'' ''Proxy'',
                  request ''http://x/b'' ''scanner'']"
  note t = tool_filter_exact_and_composed
    [of "[''Scanner'']" "request ''http://x/b'' ''scanner''" "request ''http://x/a.JS?x=1'' ''Scanner''"
        "request ''http://x/b'' ''scanner''" "[''js'']" ?df "export [request ''http://x/b'' ''scanner'']"]
  have c: "([''js''] = [] \<or>
            (''Request.URL'' \<in> set (columns ?df) \<and> ''Request.URL'' \<notin> set (float64 ?df))) \<and>
           ([''Scanner''] = [] \<or> ''Request.Tool'' \<in> set (columns ?df))"
    by (rule sample_columns)
  have 1: "apply_filters [''js''] [''Scanner''] ?df =
      Inr (?df\<lparr>rows := filter (\<lambda>r. \<not> (extension_mask [''js''] r \<or> tool_mask [''Scanner''] r))
                            (rows ?df)\<rparr>)"
    using t c by blast
  have 2: "tool_mask [''Scanner''] (request ''http://x/a.JS?x=1'' ''Scanner'')"
    using t by (simp add: request_def)
  have 3: "\<not> tool_mask [''Scanner''] (request ''http://x/b'' ''scanner'')"
    using t by (simp add: request_def)
  from 1 have "apply_filters [''js''] [''Scanner''] ?df = Inr (export [request ''http://x/b'' ''scanner''])"
    by (simp add: export_def sample_masks)
  with 2 3 show ?thesis by simp
qed

subsection \<open>Idempotence\<close>

text \<open>
  C8. Filtering is idempotent: when the filter stage turns a record set into a filtered
  set, the stage applied to that filtered set with the same two exclusion lists returns
  the filtered set unchanged.
\<close>

theorem filtering_idempotent:
  assumes "apply_filters exts excl df = Inr df'"
  shows "apply_filters exts excl df' = Inr df'"
proof -
  let ?keep = "\<lambda>r. \<not> (extension_mask exts r \<or> tool_mask excl r)"
  have cols: "(exts = [] \<or>
       (''Request.URL'' \<in> set (columns df) \<and> ''Request.URL'' \<notin> set (float64 df))) \<and>
      (excl = [] \<or> ''Request.Tool'' \<in> set (columns df))"
    using assms by (rule apply_filters_Inr_cases)
  then have "apply_filters exts excl df = Inr (df\<lparr>rows := filter ?keep (rows df)\<rparr>)"
    by (simp add: apply_filters_rows)
  with assms have df': "df' = df\<lparr>rows := filter ?keep (rows df)\<rparr>"
    by simp
  have "(exts = [] \<or>
       (''Request.URL'' \<in> set (columns df') \<and> ''Request.URL'' \<notin> set (float64 df'))) \<and>
      (excl = [] \<or> ''Request.Tool'' \<in> set (columns df'))"
    using cols by (simp add: df')
  then have "apply_filters exts excl df' = Inr (df'\<lparr>rows := filter ?keep (rows df')\<rparr>)"
    by (simp add: apply_filters_rows)
  also have "df'\<lparr>rows := filter ?keep (rows df')\<rparr> = df'"
    by (simp add: df' filter_mask_twice)
  finally show ?thesis .
qed

theorem filtering_idempotent_witness:
  "apply_filters [''js''] [''Scanner''] (export [request ''http://x/b'' ''scanner'']) =
   Inr (export [request ''http://x/b'' ''scanner''])"
proof -
  let ?df = "export [request ''http://x/a.JS?x=1'' ''Scanner'', request ''http://x/a.JS'' ''Proxy'',
                  request ''http://x/b'' ''scanner'']"
  have "([''js''] = [] \<or>
         (''Request.URL'' \<in> set (columns ?df) \<and> ''Request.URL'' \<notin> set (float64 ?df))) \<and>
        ([''Scanner''] = [] \<or> ''Request.Tool'' \<in> set (columns ?df))"
    by (rule sample_columns)
  then have "apply_filters [''js''] [''Scanner''] ?df =
      Inr (?df\<lparr>rows := filter (\<lambda>r. \<not> (extension_mask [''js''] r \<or> tool_mask [''Scanner''] r))
                            (rows ?df)\<rparr>)"
    by (simp add: apply_filters_rows)
  then have "apply_filters [''js''] [''Scanner''] ?df = Inr (export [request ''http://x/b'' ''scanner''])"
    by (simp add: export_def sample_masks)
  then show ?thesis
    by (rule filtering_idempotent)
qed

section \<open>Properties of the early returns\<close>

lemma dropna_Time_all_None:
  "list_all (\<lambda>x. x = None) ts \<Longrightarrow> dropna_Time rs ts = []"
  by (induction rs ts rule: dropna_Time.induct) simp_all

lemma all_None_map_wall:
  "list_all (\<lambda>x. x = None) h \<Longrightarrow> list_all (\<lambda>x. x = None) (map (map_option wall) h)"
  by (induction h) simp_all

lemma all_None_no_notna:
  "list_all (\<lambda>x. x = None) h \<Longrightarrow> \<not> list_ex (\<lambda>x. x \<noteq> None) h"
  by (induction h) simp_all

lemma resolve_times_unresolvable:
  assumes "list_all (\<lambda>x. x = None) (request_times L df)"
    and "''Response.Headers'' \<in> set (columns df)"
    and "header_times L df = Inr h"
    and "list_all (\<lambda>x. x = None) h"
  shows "resolve_times L df = Result (map (map_option wall) h)"
  using assms all_None_no_notna [of h]
  by (simp add: resolve_times_def Let_def)

lemma resolve_times_no_headers:
  assumes "list_all (\<lambda>x. x = None) (request_times L df)"
    and "''Response.Headers'' \<notin> set (columns df)"
  shows "resolve_times L df = Diagnostic NoHeadersColumn"
  using assms by (simp add: resolve_times_def Let_def)

lemma resolve_times_parser_raises:
  assumes "list_all (\<lambda>x. x = None) (request_times L df)"
    and "''Response.Headers'' \<in> set (columns df)"
    and "header_times L df = Inl e"
  shows "resolve_times L df = Raise e"
  using assms by (simp add: resolve_times_def Let_def)

text \<open>
  C1. A record set without the \<open>Request.URL\<close> column, analysed with the exclusion list
  \<open>["js"]\<close>: the extension filter reads the column before the check of the required
  columns is reached, and the \<open>KeyError\<close> escapes \<open>analyze_burp_log\<close>.
\<close>

theorem missing_url_column_raises:
  "analyze_burp_log L
     \<lparr>columns = [''Request.Tool''], float64 = [], rows = [request ''http://x/a'' ''Proxy'']\<rparr>
     [''js''] [] =
   Raise (KeyError ''Request.URL'')"
  by (simp add: analyze_burp_log_def empty_def apply_filters_def filter_extensions_def)

text \<open>
  Without exclusion lists the check of the required columns is reached, and a set that
  lacks one of them is answered with a diagnostic.
\<close>

lemma missing_column_unfiltered:
  assumes "''Request.URL'' \<notin> set (columns df) \<or> ''Request.Tool'' \<notin> set (columns df)"
  shows "\<exists>d. analyze_burp_log L df [] [] = Diagnostic d"
  using assms
  by (auto simp: analyze_burp_log_def apply_filters_def filter_extensions_def filter_tools_def)

text \<open>
  Where the terminal conditions do end in a diagnostic: on an empty record set, whatever
  the exclusion lists; when the filter stage returns an empty set; and when it returns a
  set in which the primary strategy resolves no record and the header column is absent,
  or the fallback strategy parses without an exception and resolves none either.
\<close>

lemma diagnostic_after_filtering:
  "(empty df \<longrightarrow> analyze_burp_log L df exts excl = Diagnostic EmptyData) \<and>
   (\<not> empty df \<and> apply_filters exts excl df = Inr df' \<and> empty df' \<longrightarrow>
      analyze_burp_log L df exts excl = Diagnostic AllFilteredOut) \<and>
   (\<not> empty df \<and> apply_filters exts excl df = Inr df' \<and> \<not> empty df' \<and>
    list_all (\<lambda>x. x = None) (request_times L df') \<and>
    (''Response.Headers'' \<in> set (columns df') \<longrightarrow>
       (\<exists>h. header_times L df' = Inr h \<and> list_all (\<lambda>x. x = None) h)) \<longrightarrow>
      analyze_burp_log L df exts excl \<in>
        {Diagnostic (MissingColumn ''Request.URL''), Diagnostic (MissingColumn ''Request.Tool''),
         Diagnostic NoHeadersColumn, Diagnostic NoValidTimestamps})"
proof (intro conjI impI)
  assume "empty df"
  then show "analyze_burp_log L df exts excl = Diagnostic EmptyData"
    by (simp add: analyze_burp_log_def)
next
  assume "\<not> empty df \<and> apply_filters exts excl df = Inr df' \<and> empty df'"
  then show "analyze_burp_log L df exts excl = Diagnostic AllFilteredOut"
    by (simp add: analyze_burp_log_def)
next
  assume a: "\<not> empty df \<and> apply_filters exts excl df = Inr df' \<and> \<not> empty df' \<and>
    list_all (\<lambda>x. x = None) (request_times L df') \<and>
    (''Response.Headers'' \<in> set (columns df') \<longrightarrow>
       (\<exists>h. header_times L df' = Inr h \<and> list_all (\<lambda>x. x = None) h))"
  let ?A = "analyze_burp_log L df exts excl"
  consider (url) "''Request.URL'' \<notin> set (columns df')"
    | (tool) "''Request.URL'' \<in> set (columns df')" "''Request.Tool'' \<notin> set (columns df')"
    | (nohdr) "''Request.URL'' \<in> set (columns df')" "''Request.Tool'' \<in> set (columns df')"
        "''Response.Headers'' \<notin> set (columns df')"
    | (hdr) "''Request.URL'' \<in> set (columns df')" "''Request.Tool'' \<in> set (columns df')"
        "''Response.Headers'' \<in> set (columns df')"
    by blast
  then have "?A = Diagnostic (MissingColumn ''Request.URL'') \<or>
             ?A = Diagnostic (MissingColumn ''Request.Tool'') \<or>
             ?A = Diagnostic NoHeadersColumn \<or> ?A = Diagnostic NoValidTimestamps"
  proof cases
    case url
    with a show ?thesis by (simp add: analyze_burp_log_def)
  next
    case tool
    with a show ?thesis by (simp add: analyze_burp_log_def)
  next
    case nohdr
    with a have "resolve_times L df' = Diagnostic NoHeadersColumn"
      by (simp add: resolve_times_no_headers)
    with a nohdr show ?thesis by (simp add: analyze_burp_log_def)
  next
    case hdr
    with a obtain h where h: "header_times L df' = Inr h" "list_all (\<lambda>x. x = None) h"
      by blast
    with a hdr have r: "resolve_times L df' = Result (map (map_option wall) h)"
      by (simp add: resolve_times_unresolvable)
    from h have "dropna_Time (rows df') (map (map_option wall) h) = []"
      by (simp add: dropna_Time_all_None all_None_map_wall)
    with a hdr r show ?thesis by (simp add: analyze_burp_log_def)
  qed
  then show "?A \<in>
        {Diagnostic (MissingColumn ''Request.URL''), Diagnostic (MissingColumn ''Request.Tool''),
         Diagnostic NoHeadersColumn, Diagnostic NoValidTimestamps}"
    by blast
qed

text \<open>
  C6. Three record sets in which no record has a resolvable Event Time, each of which
  ends \<open>analyze_burp_log\<close> with an exception and not with a diagnostic. In the first the
  one header block holds a \<open>Date:\<close> line whose year the parser cannot take: it raises
  \<open>OverflowError\<close>, which \<open>extract_date_from_headers\<close> does not catch. The second has
  neither a time column nor a header column nor a tool column, and the tool filter
  raises \<open>KeyError\<close> before any check is reached. In the third no record has a URL, and
  the extension filter raises \<open>AttributeError\<close> on the URL column.
\<close>

theorem unresolvable_times_raise:
  "analyze_burp_log sample_lib
     (export [response ''http://x/a'' ''Proxy'' ''Date: Mon, 01 Jan 99999999999 00:00:00 GMT''])
     [] [] = Raise OverflowError \<and>
   analyze_burp_log sample_lib
     \<lparr>columns = [''Request.URL''], float64 = [], rows = [request ''http://x/a'' ''Proxy'']\<rparr>
     [] [''Scanner''] = Raise (KeyError ''Request.Tool'') \<and>
   analyze_burp_log sample_lib (export_without_urls [no_url ''Proxy'' ''n/a''])
     [''js''] [] = Raise AttributeError"
  by code_simp

section \<open>Properties of the aggregation\<close>

subsection \<open>Counting\<close>

lemma sum_list_map_insort_key:
  "sum_list (map g (insort_key f x xs)) = g x + sum_list (map g xs)"
  for g :: "'a \<Rightarrow> nat"
  by (induction xs) simp_all

lemma sum_list_map_sort_key:
  "sum_list (map g (sort_key f xs)) = sum_list (map g xs)"
  for g :: "'a \<Rightarrow> nat"
  by (induction xs) (simp_all add: sum_list_map_insort_key)

lemma set_unique: "set (unique xs) = set xs"
  by (simp add: unique_def)

lemma distinct_unique: "distinct (unique xs)"
  by (simp add: unique_def)

lemma sum_counts: "sum_list (map snd (counts xs)) = length xs"
proof -
  have "sum_list (map snd (counts xs)) = sum_list (map (count_list xs) (unique xs))"
    by (simp add: counts_def sum_list_map_sort_key comp_def)
  also have "\<dots> = sum (count_list xs) (set (unique xs))"
    by (simp add: sum_list_distinct_conv_sum_set distinct_unique)
  also have "\<dots> = length xs"
    by (simp add: set_unique sum_count_set)
  finally show ?thesis .
qed

lemma set_counts: "set (counts xs) = (\<lambda>k. (k, count_list xs k)) ` set xs"
  by (simp add: counts_def set_unique)

lemma distinct_keys_counts: "distinct (map fst (counts xs))"
proof -
  have "distinct (map (\<lambda>k. (k, count_list xs k)) (unique xs))"
    by (simp add: distinct_map distinct_unique inj_on_def)
  then have d: "distinct (counts xs)"
    by (simp add: counts_def)
  have "inj_on fst (set (counts xs))"
    by (auto simp: set_counts inj_on_def)
  with d show ?thesis
    by (simp add: distinct_map)
qed

lemma map_of_counts:
  "map_of (counts xs) k = (if k \<in> set xs then Some (count_list xs k) else None)"
proof (cases "k \<in> set xs")
  case True
  then have "(k, count_list xs k) \<in> set (counts xs)"
    by (simp add: set_counts)
  then have "map_of (counts xs) k = Some (count_list xs k)"
    using distinct_keys_counts [of xs] by simp
  with True show ?thesis by simp
next
  case False
  then have "k \<notin> fst ` set (counts xs)"
    by (auto simp: set_counts)
  then have "map_of (counts xs) k = None"
    by (simp add: map_of_eq_None_iff)
  with False show ?thesis by simp
qed

lemma keys_value_counts: "fst ` set (value_counts xs) = {c \<in> set xs. c \<noteq> NA}"
  by (auto simp: value_counts_def set_counts notna_def image_iff)

lemma sum_value_counts: "sum_list (map snd (value_counts xs)) = length (filter (\<lambda>c. c \<noteq> NA) xs)"
proof -
  have "filter notna xs = filter (\<lambda>c. c \<noteq> NA) xs"
    by (rule filter_cong) (simp_all add: notna_def)
  then show ?thesis
    by (simp add: value_counts_def sum_counts)
qed


lemma traverse_Inr_map: "traverse f xs = Inr ys \<Longrightarrow> map f xs = map Inr ys"
  by (induction xs arbitrary: ys) (auto split: sum.splits)

lemma length_filter_through:
  "map f xs = map Inr ys \<Longrightarrow>
     length (filter (\<lambda>x. f x = Inr v) xs) = length (filter (\<lambda>y. y = v) ys)"
proof (induction xs arbitrary: ys)
  case Nil
  then show ?case by simp
next
  case (Cons x xs)
  then obtain y ys' where ys: "ys = y # ys'" "f x = Inr y" "map f xs = map Inr ys'"
    by (cases ys) auto
  with Cons.IH [of ys'] show ?case by simp
qed

lemma length_filter_through_neq:
  "map f xs = map Inr ys \<Longrightarrow>
     length (filter (\<lambda>x. f x \<noteq> Inr v) xs) = length (filter (\<lambda>y. y \<noteq> v) ys)"
proof (induction xs arbitrary: ys)
  case Nil
  then show ?case by simp
next
  case (Cons x xs)
  then obtain y ys' where ys: "ys = y # ys'" "f x = Inr y" "map f xs = map Inr ys'"
    by (cases ys) auto
  with Cons.IH [of ys'] show ?case by simp
qed

lemma count_list_length_filter: "count_list ys v = length (filter (\<lambda>y. y = v) ys)"
  by (induction ys) simp_all

lemma map_of_value_counts:
  "map_of (value_counts xs) (Str h) =
     (if count_list xs (Str h) = 0 then None else Some (count_list xs (Str h)))"
proof -
  have 1: "count_list (filter notna xs) (Str h) = count_list xs (Str h)"
    by (induction xs) (simp_all add: notna_def)
  have 2: "Str h \<in> set (filter notna xs) \<longleftrightarrow> count_list xs (Str h) \<noteq> 0"
    by (simp add: notna_def count_list_0_iff)
  show ?thesis
    unfolding value_counts_def map_of_counts 1 using 2 by auto
qed

subsection \<open>Endpoint counts\<close>

text \<open>
  C5, as the code has it. The endpoint counts sum to the number of records of the
  filtered, time-resolved set that have a URL; they sum to the size of the set, which is
  the total reported in the productivity metrics, when every record of it has one.
\<close>

theorem endpoint_counts_sum:
  "sum_list (map snd (endpoint_counts evs)) =
     length (filter (\<lambda>e. Request_URL (source e) \<noteq> NA) evs) \<and>
   ((\<forall>e \<in> set evs. Request_URL (source e) \<noteq> NA) \<longrightarrow>
      sum_list (map snd (endpoint_counts evs)) = total_requests evs)"
proof -
  have 1: "sum_list (map snd (endpoint_counts evs)) =
      length (filter (\<lambda>e. Request_URL (source e) \<noteq> NA) evs)"
    by (simp add: endpoint_counts_def sum_value_counts filter_map comp_def)
  have "(\<forall>e \<in> set evs. Request_URL (source e) \<noteq> NA) \<longrightarrow>
      filter (\<lambda>e. Request_URL (source e) \<noteq> NA) evs = evs"
    by (simp add: filter_id_conv)
  with 1 show ?thesis
    by (auto simp: total_requests_def)
qed

theorem endpoint_counts_sum_witness:
  "sum_list (map snd (endpoint_counts
      [timed 1704189600 (request ''http://a/x'' ''Repeater''),
       timed 1704189601 (request ''http://a/x'' ''Repeater''),
       timed 1704189602 (request ''http://a/y'' ''Scanner'')])) = 3"
  using endpoint_counts_sum
    [of "[timed 1704189600 (request ''http://a/x'' ''Repeater''),
          timed 1704189601 (request ''http://a/x'' ''Repeater''),
          timed 1704189602 (request ''http://a/y'' ''Scanner'')]"]
  by (simp add: timed_def request_def total_requests_def)

text \<open>
  C5 as stated fails on a record without URL: it passes both filters and has a time, and
  \<open>value_counts\<close> leaves it out. The endpoint counts of the one-record set sum to 0,
  and \<open>analyze_burp_log\<close> returns a report with that sum beside a total of 1.
\<close>

theorem endpoint_counts_sum_counterexample:
  "sum_list (map snd (endpoint_counts
      [timed 1704189600 (no_url ''Proxy'' ''01/02/2024 10:00:00 AM'')])) \<noteq>
   length [timed 1704189600 (no_url ''Proxy'' ''01/02/2024 10:00:00 AM'')] \<and>
   (case analyze_burp_log sample_lib
           (export [no_url ''Proxy'' ''01/02/2024 10:00:00 AM'']) [] []
    of Result (h, a) \<Rightarrow> sum_list (map snd (d_endpoint_counts a)) = 0 \<and> d_total_requests a = 1
     | _ \<Rightarrow> False)"
  by code_simp

subsection \<open>Target counts\<close>

text \<open>
  C7, as the code has it. When the target column is computed without an exception, the
  target counts map each hostname to the number of records whose URL yields it, and a
  hostname that no record yields is not a key. A record whose URL is not a string or
  yields no hostname has a null target; the null target is never a key, and the counts
  sum to the number of records with a hostname.
\<close>

theorem target_counts_omit_null:
  assumes "target_counts L evs = Inr tc"
  shows "NA \<notin> fst ` set tc \<and>
     (\<forall>h. map_of tc (Str h) =
        (let n = length (filter (\<lambda>e. target L (Request_URL (source e)) = Inr (Str h)) evs)
         in if n = 0 then None else Some n)) \<and>
     sum_list (map snd tc) =
       length (filter (\<lambda>e. target L (Request_URL (source e)) \<noteq> Inr NA) evs)"
proof -
  let ?urls = "map (\<lambda>e. Request_URL (source e)) evs"
  from assms obtain ts where ts: "traverse (target L) ?urls = Inr ts" and tc: "tc = value_counts ts"
    by (auto simp: target_counts_def target_column_def split: sum.splits)
  from ts have m: "map (target L) ?urls = map Inr ts"
    by (rule traverse_Inr_map)
  have a: "NA \<notin> fst ` set tc"
    by (simp add: tc keys_value_counts)
  have b: "map_of tc (Str h) =
        (let n = length (filter (\<lambda>e. target L (Request_URL (source e)) = Inr (Str h)) evs)
         in if n = 0 then None else Some n)" for h
  proof -
    have "count_list ts (Str h) = length (filter (\<lambda>x. target L x = Inr (Str h)) ?urls)"
      using length_filter_through [OF m, of "Str h"] by (simp add: count_list_length_filter)
    also have "\<dots> = length (filter (\<lambda>e. target L (Request_URL (source e)) = Inr (Str h)) evs)"
      by (simp add: filter_map comp_def)
    finally show ?thesis
      by (simp add: tc map_of_value_counts Let_def)
  qed
  have "sum_list (map snd tc) = length (filter (\<lambda>x. target L x \<noteq> Inr NA) ?urls)"
    using length_filter_through_neq [OF m, of NA] by (simp add: tc sum_value_counts)
  also have "\<dots> = length (filter (\<lambda>e. target L (Request_URL (source e)) \<noteq> Inr NA) evs)"
    by (simp add: filter_map comp_def)
  finally show ?thesis
    using a b by blast
qed

theorem target_counts_omit_null_witness:
  "target_counts sample_lib
     [timed 1704189600 (no_url ''Proxy'' ''01/02/2024 10:00:00 AM''),
      timed 1704189600 (request ''http://x/a'' ''Proxy'')] = Inr [(Str ''x'', 1)] \<and>
   length (filter (\<lambda>e. target sample_lib (Request_URL (source e)) \<noteq> Inr NA)
     [timed 1704189600 (no_url ''Proxy'' ''01/02/2024 10:00:00 AM''),
      timed 1704189600 (request ''http://x/a'' ''Proxy'')]) = 1"
proof -
  let ?evs = "[timed 1704189600 (no_url ''Proxy'' ''01/02/2024 10:00:00 AM''),
               timed 1704189600 (request ''http://x/a'' ''Proxy'')]"
  have h: "target_counts sample_lib ?evs = Inr [(Str ''x'', 1)]"
    by code_simp
  from target_counts_omit_null [OF h]
  have "sum_list (map snd [(Str ''x'', 1::nat)]) =
      length (filter (\<lambda>e. target sample_lib (Request_URL (source e)) \<noteq> Inr NA) ?evs)"
    by blast
  with h show ?thesis by simp
qed

text \<open>
  C7 as stated fails on a record without URL beside a record of host \<open>x\<close>: the first
  has the null target, and the target counts hold the single key \<open>x\<close>, in the
  aggregation and in the report that \<open>analyze_burp_log\<close> returns for the two records.
\<close>

theorem target_counts_null_key_counterexample:
  "target sample_lib (Request_URL (no_url ''Proxy'' ''01/02/2024 10:00:00 AM'')) = Inr NA \<and>
   target_counts sample_lib
     [timed 1704189600 (no_url ''Proxy'' ''01/02/2024 10:00:00 AM''),
      timed 1704189600 (request_at ''http://x/a'' ''Proxy'' ''01/02/2024 10:00:00 AM'')]
     = Inr [(Str ''x'', 1)] \<and>
   (case analyze_burp_log sample_lib
           (export [no_url ''Proxy'' ''01/02/2024 10:00:00 AM'',
                    request_at ''http://x/a'' ''Proxy'' ''01/02/2024 10:00:00 AM'']) [] []
    of Result (h, a) \<Rightarrow>
         d_target_counts a = [(Str ''x'', 1)] \<and> NA \<notin> fst ` set (d_target_counts a) \<and>
         d_total_requests a = 2
     | _ \<Rightarrow> False)"
  by code_simp

subsection \<open>Daily buckets\<close>

lemma sum_increment: "sum_list (map snd (increment k d)) = sum_list (map snd d) + 1"
  unfolding increment_def by (induction d) auto

lemma dd_update_preserves:
  assumes "\<forall>kv \<in> set d. P (snd kv)" and "P (f dflt)" and "\<And>v. P v \<Longrightarrow> P (f v)"
  shows "\<forall>kv \<in> set (dd_update k dflt f d). P (snd kv)"
  using assms by (induction d) (fastforce split: if_splits)+

lemma dd_update_measure:
  assumes "g (f dflt) = 1" and "\<And>v. g (f v) = g v + 1"
  shows "sum_list (map (\<lambda>kv. g (snd kv)) (dd_update k dflt f d)) =
         sum_list (map (\<lambda>kv. g (snd kv)) d) + (1::nat)"
  using assms by (induction d) auto

lemma count_in_bucket_balanced:
  "total b = sum_list (map snd (tools b)) \<Longrightarrow>
   total (count_in_bucket t b) = sum_list (map snd (tools (count_in_bucket t b)))"
  by (simp add: count_in_bucket_def sum_increment)

lemma daily_step_balanced:
  assumes "\<forall>db \<in> set acc. total (snd db) = sum_list (map snd (tools (snd db)))"
  shows "\<forall>db \<in> set (dd_update d \<lparr>total = 0, tools = []\<rparr> (count_in_bucket t) acc).
           total (snd db) = sum_list (map snd (tools (snd db)))"
proof (rule dd_update_preserves [where P = "\<lambda>b. total b = sum_list (map snd (tools b))"])
  show "\<forall>kv \<in> set acc. total (snd kv) = sum_list (map snd (tools (snd kv)))"
    by (rule assms)
  show "total (count_in_bucket t \<lparr>total = 0, tools = []\<rparr>) =
        sum_list (map snd (tools (count_in_bucket t \<lparr>total = 0, tools = []\<rparr>)))"
    by (rule count_in_bucket_balanced) simp
  show "\<And>v. total v = sum_list (map snd (tools v)) \<Longrightarrow>
        total (count_in_bucket t v) = sum_list (map snd (tools (count_in_bucket t v)))"
    by (rule count_in_bucket_balanced)
qed

lemma daily_step_total:
  "sum_list (map (\<lambda>db. total (snd db))
      (dd_update d \<lparr>total = 0, tools = []\<rparr> (count_in_bucket t) acc)) =
   sum_list (map (\<lambda>db. total (snd db)) acc) + 1"
  by (rule dd_update_measure) (simp_all add: count_in_bucket_def)

lemma daily_fold_balanced:
  assumes "\<forall>db \<in> set acc. total (snd db) = sum_list (map snd (tools (snd db)))"
  shows "\<forall>db \<in> set (foldl (\<lambda>d e. dd_update (date e) \<lparr>total = 0, tools = []\<rparr>
                     (count_in_bucket (Request_Tool (source e))) d) acc evs).
           total (snd db) = sum_list (map snd (tools (snd db)))"
  using assms
proof (induction evs arbitrary: acc)
  case Nil
  then show ?case by simp
next
  case (Cons e evs)
  show ?case
    unfolding foldl_Cons
    by (rule Cons.IH) (rule daily_step_balanced [OF Cons.prems])
qed

lemma daily_fold_total:
  "sum_list (map (\<lambda>db. total (snd db))
      (foldl (\<lambda>d e. dd_update (date e) \<lparr>total = 0, tools = []\<rparr>
                     (count_in_bucket (Request_Tool (source e))) d) acc evs)) =
   sum_list (map (\<lambda>db. total (snd db)) acc) + length evs"
  by (induction evs arbitrary: acc) (simp_all add: daily_step_total)

lemma analysis_Result:
  assumes "analysis L nan_urls evs = Result (h, a)"
  shows "d_endpoint_counts a = endpoint_counts evs \<and>
         d_tool_endpoint_counts a = tool_endpoint_counts nan_urls evs \<and>
         d_daily_summary a = daily_summary evs \<and>
         d_tool_summary a = tool_summary evs \<and>
         target_counts L evs = Inr (d_target_counts a) \<and>
         d_total_requests a = total_requests evs \<and>
         d_active_days a = active_days evs \<and>
         d_peak_day_count a = peak_day_count evs"
  using assms by (auto simp: analysis_def Let_def split: sum.splits)

lemma analyze_burp_log_Result:
  assumes "analyze_burp_log L df exts excl = Result (h, a)"
  shows "\<exists>df' ts. apply_filters exts excl df = Inr df' \<and> resolve_times L df' = Result ts \<and>
           dropna_Time (rows df') ts \<noteq> [] \<and>
           analysis L (''Request.URL'' \<in> set (float64 df')) (dropna_Time (rows df') ts)
             = Result (h, a)"
  using assms
  by (auto simp: analyze_burp_log_def Let_def split: if_splits sum.splits outcome.splits)

text \<open>
  C10. In the daily summary of a filtered, time-resolved record set, the total of each
  bucket equals the sum of its per-tool counts, and the totals of all buckets sum to the
  total record count of the productivity metrics. The same holds of the daily summary
  and the total in every report that \<open>analyze_burp_log\<close> returns.
\<close>

theorem daily_buckets_add_up:
  "(\<forall>db \<in> set (daily_summary evs). total (snd db) = sum_list (map snd (tools (snd db)))) \<and>
   sum_list (map (\<lambda>db. total (snd db)) (daily_summary evs)) = total_requests evs \<and>
   (analyze_burp_log L df exts excl = Result (h, a) \<longrightarrow>
      (\<forall>db \<in> set (d_daily_summary a). total (snd db) = sum_list (map snd (tools (snd db)))) \<and>
      sum_list (map (\<lambda>db. total (snd db)) (d_daily_summary a)) = d_total_requests a)"
proof -
  have 1: "\<forall>db \<in> set (daily_summary evs). total (snd db) = sum_list (map snd (tools (snd db)))"
    for evs
    unfolding daily_summary_def by (rule daily_fold_balanced) simp
  have 2: "sum_list (map (\<lambda>db. total (snd db)) (daily_summary evs)) = total_requests evs"
    for evs
    by (simp add: daily_summary_def daily_fold_total total_requests_def)
  have 3: "(\<forall>db \<in> set (d_daily_summary a). total (snd db) = sum_list (map snd (tools (snd db)))) \<and>
      sum_list (map (\<lambda>db. total (snd db)) (d_daily_summary a)) = d_total_requests a"
    if "analyze_burp_log L df exts excl = Result (h, a)"
  proof -
    from that obtain n evs where "analysis L n evs = Result (h, a)"
      using analyze_burp_log_Result by blast
    then have "d_daily_summary a = daily_summary evs" "d_total_requests a = total_requests evs"
      using analysis_Result by blast+
    then show ?thesis
      using 1 [of evs] 2 [of evs] by simp
  qed
  from 1 2 3 show ?thesis by blast
qed

theorem daily_buckets_add_up_witness:
  "list_all (\<lambda>db. total (snd db) = sum_list (map snd (tools (snd db))))
     (daily_summary
       [timed 1704189600 (request ''http://a/x'' ''Repeater''),
        timed 1704189601 (request ''http://a/x'' ''Scanner''),
        timed 1704276000 (request ''http://a/y'' ''Scanner'')]) \<and>
   sum_list (map (\<lambda>db. total (snd db))
     (daily_summary
       [timed 1704189600 (request ''http://a/x'' ''Repeater''),
        timed 1704189601 (request ''http://a/x'' ''Scanner''),
        timed 1704276000 (request ''http://a/y'' ''Scanner'')])) = 3 \<and>
   (\<exists>h a. analyze_burp_log sample_lib
             (export [request_at ''http://x/a'' ''Repeater'' ''01/02/2024 10:00:00 AM'',
                      request_at ''http://x/a'' ''Scanner'' ''01/02/2024 10:00:00 AM'']) [] []
           = Result (h, a) \<and>
          sum_list (map (\<lambda>db. total (snd db)) (d_daily_summary a)) = d_total_requests a)"
proof -
  let ?evs = "[timed 1704189600 (request ''http://a/x'' ''Repeater''),
               timed 1704189601 (request ''http://a/x'' ''Scanner''),
               timed 1704276000 (request ''http://a/y'' ''Scanner'')]"
  let ?df = "export [request_at ''http://x/a'' ''Repeater'' ''01/02/2024 10:00:00 AM'',
                     request_at ''http://x/a'' ''Scanner'' ''01/02/2024 10:00:00 AM'']"
  have "(case analyze_burp_log sample_lib ?df [] [] of Result ha \<Rightarrow> True | _ \<Rightarrow> False)"
    by code_simp
  then obtain h a where r: "analyze_burp_log sample_lib ?df [] [] = Result (h, a)"
    by (cases "analyze_burp_log sample_lib ?df [] []") auto
  note t = daily_buckets_add_up [of ?evs sample_lib ?df "[]" "[]" h a]
  from t r have "sum_list (map (\<lambda>db. total (snd db)) (d_daily_summary a)) = d_total_requests a"
    by blast
  with r have 3: "\<exists>h a. analyze_burp_log sample_lib ?df [] [] = Result (h, a) \<and>
      sum_list (map (\<lambda>db. total (snd db)) (d_daily_summary a)) = d_total_requests a"
    by blast
  from t have "list_all (\<lambda>db. total (snd db) = sum_list (map snd (tools (snd db))))
      (daily_summary ?evs)"
    by (simp add: list_all_iff)
  moreover from t have "sum_list (map (\<lambda>db. total (snd db)) (daily_summary ?evs)) = 3"
    by (simp add: total_requests_def)
  ultimately show ?thesis
    using 3 by blast
qed

section \<open>Properties of the timestamp resolution\<close>

text \<open>
  The primary strategy stands as soon as one record resolves under it: the fallback is
  applied only when no request time parses. When it is applied, the parser raises on no
  header block and the header dates form a datetime column, every record gets the date
  of its first \<open>Date:\<close> line, parsed and stripped of its offset, or stays unresolved.
\<close>

lemma primary_resolution:
  "\<not> list_all (\<lambda>x. x = None) (request_times L df) \<Longrightarrow>
     resolve_times L df = Result (request_times L df)"
  by (simp add: resolve_times_def Let_def)

lemma header_times_Inr:
  "header_times L df = Inr h \<Longrightarrow>
     map (\<lambda>r. extract_date_from_headers L (Response_Headers r)) (rows df) = map Inr h"
  unfolding header_times_def by (rule traverse_Inr_map)

lemma fallback_resolution:
  assumes "list_all (\<lambda>x. x = None) (request_times L df)"
    and "''Response.Headers'' \<in> set (columns df)"
    and "header_times L df = Inr h"
    and "datetimelike L h"
  shows "resolve_times L df = Result (map (map_option wall) h)"
  using assms
  by (simp add: resolve_times_def Let_def tz_localize_None_def)

lemma notna_values_Nil:
  "\<not> list_ex (\<lambda>x. x \<noteq> None) h \<Longrightarrow> notna_values h = []"
  by (induction h rule: notna_values.induct) simp_all

lemma fallback_mixed:
  assumes "list_all (\<lambda>x. x = None) (request_times L df)"
    and "''Response.Headers'' \<in> set (columns df)"
    and "header_times L df = Inr h"
    and "\<not> datetimelike L h"
  shows "resolve_times L df = Raise AttributeError"
proof -
  have "list_ex (\<lambda>x. x \<noteq> None) h"
  proof (rule ccontr)
    assume "\<not> list_ex (\<lambda>x. x \<noteq> None) h"
    then have "notna_values h = []"
      by (rule notna_values_Nil)
    then have "datetimelike L h"
      by (simp add: datetimelike_def)
    with assms(4) show False by simp
  qed
  with assms show ?thesis
    by (simp add: resolve_times_def Let_def tz_localize_None_def)
qed

lemma fallback_sample:
  "resolve_times sample_lib
     (export [response ''http://x/a'' ''Proxy'' ''Date: Tue, 02 Jan 2024 10:00:00 GMT'',
              response ''http://x/b'' ''Proxy'' ''date:Tue, 02 Jan 2024 10:00:00 GMT'',
              response ''http://x/c'' ''Proxy'' ''Server: x''])
   = Result [Some 1704189600, Some 1704189600, None]"
  by code_simp

text \<open>
  C2. Two records whose request time does not parse and whose header blocks each hold a
  valid \<open>Date:\<close> line, one in GMT and one an hour east of it: the parsed dates do not
  form a datetime column, stripping the offsets raises \<open>AttributeError\<close>, and no Event
  Time is resolved.
\<close>

theorem mixed_offsets_raise:
  "analyze_burp_log sample_lib
     (export [response ''http://x/a'' ''Proxy'' ''Date: Tue, 02 Jan 2024 10:00:00 GMT'',
              response ''http://x/b'' ''Proxy'' ''Date: Tue, 02 Jan 2024 11:00:00 +0100'']) [] []
   = Raise AttributeError"
  by code_simp

section \<open>Properties of the report\<close>

text \<open>
  \<open>html.escape\<close> leaves no character that opens or closes a tag or an attribute value;
  \<open>json.dumps\<close> copies such characters.
\<close>

lemma html_escape_char_safe:
  "set (html_escape_char c) \<inter> {CHR ''<'', CHR ''>'', CHR 0x22, CHR 0x27} = {}"
  by (simp add: html_escape_char_def)

lemma html_escape_safe:
  "set (html_escape s) \<inter> {CHR ''<'', CHR ''>'', CHR 0x22, CHR 0x27} = {}"
  using html_escape_char_safe by (induction s) (auto simp: html_escape_def)

lemma json_char_plain:
  assumes "32 \<le> (of_char c :: nat)" and "(of_char c :: nat) \<le> 126"
    and "c \<noteq> CHR 0x22" and "c \<noteq> CHR 0x5C"
  shows "json_char c = [c]"
proof -
  have "(of_char c :: nat) \<noteq> of_char (CHR 0x22)" "(of_char c :: nat) \<noteq> of_char (CHR 0x5C)"
    using assms(3,4) by (simp_all only: of_char_eq_iff not_False_eq_True)
  then show ?thesis
    using assms(1,2) by (simp add: json_char_def Let_def)
qed

lemma json_string_plain:
  assumes "list_all (\<lambda>c. 32 \<le> (of_char c :: nat) \<and> (of_char c :: nat) \<le> 126
              \<and> c \<noteq> CHR 0x22 \<and> c \<noteq> CHR 0x5C) s"
  shows "json_string s = [CHR 0x22] @ s @ [CHR 0x22]"
proof -
  from assms have "concat (map json_char s) = s"
    by (induction s) (simp_all add: json_char_plain)
  then show ?thesis by (simp add: json_string_def)
qed

text \<open>
  C9. One record whose tool name is \<open></script><script>alert(1)</script>\<close>: the tool
  table of the report holds the name escaped, and the \<open>toolData\<close> line, which stands
  inside the \<open><script>\<close> element of the document, holds it as it is.
\<close>

theorem tool_name_unescaped_in_script:
  "(case analyze_burp_log sample_lib
           (export [request_at ''http://x/a'' ''</script><script>alert(1)</script>''
                      ''01/02/2024 10:00:00 AM'']) [] []
    of Result (h, a) \<Rightarrow>
         script h = ''const toolData = [['' @ [CHR 0x22] @ ''</script><script>alert(1)</script>''
                      @ [CHR 0x22] @ '', 1]];'' \<and>
         tools_table h =
           ''<tr><td>&lt;/script&gt;&lt;script&gt;alert(1)&lt;/script&gt;</td><td>1</td></tr>''
     | _ \<Rightarrow> False)"
  by code_simp

end
